theory Spec2Isabelle
  imports Complex_Main "HOL-Library.Code_Target_Nat"
begin

section \<open>JavaScript values as the gateway sees them\<close>

text \<open>
  The gateway (backend/routes/*.js) is an Express application: every handler reads
  \<open>req.body\<close>, a value parsed from JSON, posts a payload to the Python service with
  \<open>axios.post\<close> and answers with \<open>res.json\<close>. The values it touches are JSON values
  plus \<open>undefined\<close> (a field that is absent). JSON has no NaN and no infinity, so a
  number is modelled as a real; the handlers never compute with numbers, they only test
  them for truthiness.
\<close>

datatype json =
    JUndefined
  | JNull
  | JBool bool
  | JNum real
  | JStr string
  | JArr "json list"
  | JObj "(string \<times> json) list"

text \<open>JavaScript's ToBoolean: the falsy values are undefined, null, false, 0 and "".\<close>

fun truthy :: "json \<Rightarrow> bool" where
  "truthy JUndefined = False"
| "truthy JNull = False"
| "truthy (JBool b) = b"
| "truthy (JNum x) = (x \<noteq> 0)"
| "truthy (JStr s) = (s \<noteq> [])"
| "truthy (JArr xs) = True"
| "truthy (JObj fs) = True"

text \<open>The operator \<open>a || d\<close>: the left operand when it is truthy, else the right one.\<close>

definition js_or :: "json \<Rightarrow> json \<Rightarrow> json" where
  "js_or a d = (if truthy a then a else d)"

text \<open>
  Reading a property \<open>v.k\<close>. On \<open>null\<close> and \<open>undefined\<close> the read throws a TypeError
  (\<open>Inl\<close> carries its message, as V8 words it); on an object it is the field or
  \<open>undefined\<close>. The property names the handlers read are never built-in properties of
  strings, arrays, numbers or booleans, so there the read gives \<open>undefined\<close>.
\<close>

definition quote :: "string \<Rightarrow> string" where
  "quote k = [CHR 0x27] @ k @ [CHR 0x27]"

fun js_get :: "json \<Rightarrow> string \<Rightarrow> string + json" where
  "js_get JUndefined k =
     Inl (''Cannot read properties of undefined (reading '' @ quote k @ '')'')"
| "js_get JNull k =
     Inl (''Cannot read properties of null (reading '' @ quote k @ '')'')"
| "js_get (JObj fs) k = Inr (case map_of fs k of None \<Rightarrow> JUndefined | Some v \<Rightarrow> v)"
| "js_get v k = Inr JUndefined"

text \<open>
  Destructuring \<open>const { a, b } = req.body\<close> throws a TypeError on \<open>null\<close> and
  \<open>undefined\<close> (\<open>destructure_error\<close> is its message, which names the first property
  of the pattern) and otherwise reads each name as a property (\<open>field\<close>).
\<close>

definition destructure_error :: "json \<Rightarrow> string \<Rightarrow> string option" where
  "destructure_error b k =
     (case b of
        JUndefined \<Rightarrow>
          Some (''Cannot destructure property '' @ quote k @ '' of '' @ quote ''req.body''
                @ '' as it is undefined.'')
      | JNull \<Rightarrow>
          Some (''Cannot destructure property '' @ quote k @ '' of '' @ quote ''req.body''
                @ '' as it is null.'')
      | _ \<Rightarrow> None)"

definition field :: "json \<Rightarrow> string \<Rightarrow> json" where
  "field b k = (case js_get b k of Inl e \<Rightarrow> JUndefined | Inr v \<Rightarrow> v)"

section \<open>The handler's effects\<close>

text \<open>
  \<open>axios.post(url, payload)\<close> either resolves with \<open>response.data\<close> or throws an error
  with a message (a refused connection, a non-2xx status). The Python service is not part
  of the gateway: it is a parameter, a function from the endpoint and the payload to the
  error message or the data.
\<close>

type_synonym service = "string \<Rightarrow> json \<Rightarrow> string + json"

record http_response =
  status :: nat
  body :: json

text \<open>
  What one run of a handler does: the response it sends, the posts it made to the
  service (in order) and the lines it wrote with \<open>console.error\<close>.
\<close>

record outcome =
  response :: http_response
  calls :: "(string \<times> json) list"
  console :: "string list"

definition res_json :: "json \<Rightarrow> http_response" where
  "res_json v = \<lparr>status = 200, body = v\<rparr>"

definition res_status_json :: "nat \<Rightarrow> json \<Rightarrow> http_response" where
  "res_status_json c v = \<lparr>status = c, body = v\<rparr>"

section \<open>routes/cascade.js: POST /api/cascade/simulate\<close>

definition simulate_payload :: "(string \<Rightarrow> json) \<Rightarrow> json" where
  "simulate_payload f =
     JObj [(''source_lat'', f ''source_lat''),
           (''source_lon'', f ''source_lon''),
           (''source_type'', js_or (f ''source_type'') (JStr ''Oil Spill'')),
           (''flow_direction'', js_or (f ''flow_direction'') (JNum 180)),
           (''flow_speed'', js_or (f ''flow_speed'') (JNum 2)),
           (''simulation_hours'', js_or (f ''simulation_hours'') (JNum 12))]"

definition simulate_failed :: "string \<Rightarrow> (string \<times> json) list \<Rightarrow> outcome" where
  "simulate_failed msg cs =
     \<lparr>response = res_status_json 500
        (JObj [(''error'', JStr ''Failed to run propagation simulation''),
               (''detail'', JStr msg)]),
      calls = cs,
      console = [''Cascade simulate error: '' @ msg]\<rparr>"

definition cascade_simulate :: "service \<Rightarrow> json \<Rightarrow> outcome" where
  "cascade_simulate svc req_body =
     (case destructure_error req_body ''source_lat'' of
        Some msg \<Rightarrow> simulate_failed msg []
      | None \<Rightarrow>
          (let payload = simulate_payload (field req_body);
               cs = [(''/simulate_propagation'', payload)]
           in case svc ''/simulate_propagation'' payload of
                Inl msg \<Rightarrow> simulate_failed msg cs
              | Inr data \<Rightarrow> \<lparr>response = res_json data, calls = cs, console = []\<rparr>))"

text \<open>The request the front end's simulator page sends, with the given direction and duration.\<close>

definition simulate_request :: "real \<Rightarrow> real \<Rightarrow> json" where
  "simulate_request dir hours =
     JObj [(''source_lat'', JNum 13), (''source_lon'', JNum 80),
           (''source_type'', JStr ''Oil Spill''),
           (''flow_direction'', JNum dir), (''flow_speed'', JNum 2),
           (''simulation_hours'', JNum hours)]"

section \<open>routes/marine.js: POST /api/marine/analyze\<close>

text \<open>Decimal digits of an array index, the key it gets when an array is spread.\<close>

fun show_nat :: "nat \<Rightarrow> string" where
  "show_nat n =
     (if n < 10 then [char_of (48 + n)]
      else show_nat (n div 10) @ [char_of (48 + n mod 10)])"

text \<open>
  \<open>for (const x of v)\<close>: an array gives its elements, a string its characters, and any
  other value that reaches the loop (an object, a number, \<open>true\<close>) is not iterable.
\<close>

fun iterate :: "json \<Rightarrow> string + json list" where
  "iterate (JArr xs) = Inr xs"
| "iterate (JStr s) = Inr (map (\<lambda>c. JStr [c]) s)"
| "iterate v = Inl ''statuses is not iterable''"

text \<open>
  The own enumerable properties that \<open>{...v}\<close> copies: an object's fields, the indexed
  elements of an array or a string, nothing for the other values.
\<close>

fun spread :: "json \<Rightarrow> (string \<times> json) list" where
  "spread (JObj fs) = fs"
| "spread (JArr xs) = zip (map show_nat [0..<length xs]) xs"
| "spread (JStr s) = zip (map show_nat [0..<length s]) (map (\<lambda>c. JStr [c]) s)"
| "spread v = []"

text \<open>
  A property written after a spread in an object literal: it replaces the value of a
  key that is already there (the key keeps its place) or is added at the end.
\<close>

fun set_prop :: "(string \<times> json) list \<Rightarrow> string \<Rightarrow> json \<Rightarrow> (string \<times> json) list" where
  "set_prop [] k v = [(k, v)]"
| "set_prop ((k', v') # fs) k v =
     (if k' = k then (k, v) # fs else (k', v') # set_prop fs k v)"

text \<open>
  The loop over the vessel statuses. \<open>spills\<close> is \<open>spillResults\<close>, \<open>posts\<close> the
  posts to \<open>/detect_oil_spill\<close>, \<open>errors\<close> the lines of the inner \<open>catch\<close>, and
  \<open>thrown\<close> the TypeError that leaves the loop for the outer \<open>catch\<close> when an element
  is \<open>null\<close>.
\<close>

record spill_run =
  spills :: "json list"
  posts :: "(string \<times> json) list"
  errors :: "string list"
  thrown :: "string option"

definition spill_payload :: "json \<Rightarrow> json" where
  "spill_payload vs = JObj [(''vessel'', field vs ''vessel'')]"

definition spill_entry :: "json \<Rightarrow> json \<Rightarrow> json" where
  "spill_entry data vs = JObj (set_prop (spread data) ''vessel_imo'' (field vs ''imo''))"

definition spill_error_line :: "string \<Rightarrow> string" where
  "spill_error_line msg = ''Oil spill detection error: '' @ msg"

fun spill_loop :: "service \<Rightarrow> json list \<Rightarrow> spill_run" where
  "spill_loop svc [] = \<lparr>spills = [], posts = [], errors = [], thrown = None\<rparr>"
| "spill_loop svc (vs # rest) =
     (case js_get vs ''status'' of
        Inl msg \<Rightarrow> \<lparr>spills = [], posts = [], errors = [], thrown = Some msg\<rparr>
      | Inr st \<Rightarrow>
          if st = JStr ''distress'' \<and> truthy (field vs ''vessel'') then
            (let r = spill_loop svc rest;
                 c = (''/detect_oil_spill'', spill_payload vs)
             in case svc ''/detect_oil_spill'' (spill_payload vs) of
                  Inr data \<Rightarrow> r\<lparr>spills := spill_entry data vs # spills r, posts := c # posts r\<rparr>
                | Inl msg \<Rightarrow>
                    r\<lparr>posts := c # posts r, errors := spill_error_line msg # errors r\<rparr>)
          else spill_loop svc rest)"

definition marine_failed :: "string \<Rightarrow> (string \<times> json) list \<Rightarrow> string list \<Rightarrow> outcome" where
  "marine_failed msg cs con =
     \<lparr>response = res_status_json 500
        (JObj [(''error'', JStr ''Failed to run marine analysis''),
               (''detail'', JStr msg)]),
      calls = cs,
      console = con @ [''Marine analyze error: '' @ msg]\<rparr>"

definition anomaly_payload :: "json \<Rightarrow> json" where
  "anomaly_payload vessels = JObj [(''vessels'', js_or vessels JNull)]"

definition marine_analyze :: "service \<Rightarrow> json \<Rightarrow> outcome" where
  "marine_analyze svc req_body =
     (case js_get req_body ''vessels'' of
        Inl msg \<Rightarrow> marine_failed msg [] []
      | Inr vessels \<Rightarrow>
          (let c0 = (''/detect_vessel_anomaly'', anomaly_payload vessels)
           in case svc ''/detect_vessel_anomaly'' (anomaly_payload vessels) of
                Inl msg \<Rightarrow> marine_failed msg [c0] []
              | Inr data \<Rightarrow>
                  (case js_get data ''vessel_statuses'' of
                     Inl msg \<Rightarrow> marine_failed msg [c0] []
                   | Inr sts \<Rightarrow>
                       (case iterate (js_or sts (JArr [])) of
                          Inl msg \<Rightarrow> marine_failed msg [c0] []
                        | Inr statuses \<Rightarrow>
                            (let r = spill_loop svc statuses
                             in case thrown r of
                                  Some msg \<Rightarrow> marine_failed msg (c0 # posts r) (errors r)
                                | None \<Rightarrow>
                                    \<lparr>response = res_json
                                       (JObj (set_prop (spread data) ''oil_spills''
                                                (JArr (spills r)))),
                                     calls = c0 # posts r,
                                     console = errors r\<rparr>)))))"

section \<open>routes/user.js: POST /api/user/history (the in-memory store)\<close>

text \<open>
  What the handler reads from outside its arguments: the two readings of \<open>Date.now()\<close>
  (for the id and for the timestamp), the digits of \<open>Math.random().toString(36)\<close>
  after the leading "0." and the text of \<open>new Date().toISOString()\<close>.
\<close>

record env =
  now_id :: nat
  random36 :: string
  now_ts :: nat
  iso_date :: string

text \<open>\<open>Number.prototype.toString(36)\<close> on a non-negative integer.\<close>

definition digit36 :: "nat \<Rightarrow> char" where
  "digit36 d = (if d < 10 then char_of (48 + d) else char_of (87 + d))"

fun to_string36 :: "nat \<Rightarrow> string" where
  "to_string36 n =
     (if n < 36 then [digit36 n]
      else to_string36 (n div 36) @ [digit36 (n mod 36)])"

text \<open>\<open>xs.slice(-n)\<close> for \<open>n > 0\<close>: the last \<open>n\<close> elements, all of them when there are fewer.\<close>

definition slice_last :: "nat \<Rightarrow> 'a list \<Rightarrow> 'a list" where
  "slice_last n xs = drop (length xs - n) xs"

definition history_entry :: "env \<Rightarrow> (string \<Rightarrow> json) \<Rightarrow> json" where
  "history_entry e f =
     JObj [(''id'', JStr (to_string36 (now_id e) @ random36 e)),
           (''userId'', f ''userId''),
           (''product'', f ''product''),
           (''analysisType'', js_or (f ''analysisType'') (JStr ''general'')),
           (''summary'', js_or (f ''summary'') (JStr [])),
           (''data'', f ''data''),
           (''timestamp'', JNum (real (now_ts e))),
           (''date'', JStr (iso_date e))]"

text \<open>
  One run of the handler on the module's variable \<open>analysisHistory\<close>: the response, the
  new value of the variable and the console lines.
\<close>

record history_outcome =
  reply :: http_response
  history :: "json list"
  logged :: "string list"

definition post_history :: "env \<Rightarrow> json \<Rightarrow> json list \<Rightarrow> history_outcome" where
  "post_history e req_body analysisHistory =
     (case destructure_error req_body ''userId'' of
        Some msg \<Rightarrow>
          \<lparr>reply = res_status_json 500 (JObj [(''error'', JStr ''Failed to save analysis'')]),
           history = analysisHistory,
           logged = [''History save error: '' @ msg]\<rparr>
      | None \<Rightarrow>
          if \<not> truthy (field req_body ''userId'') \<or> \<not> truthy (field req_body ''product'')
          then
            \<lparr>reply = res_status_json 400
               (JObj [(''error'', JStr ''userId and product are required'')]),
             history = analysisHistory,
             logged = []\<rparr>
          else
            (let entry = history_entry e (field req_body);
                 pushed = analysisHistory @ [entry]
             in \<lparr>reply = res_json (JObj [(''success'', JBool True), (''entry'', entry)]),
                 history = (if length pushed > 500 then slice_last 500 pushed else pushed),
                 logged = []\<rparr>))"

text \<open>The store after a sequence of posts, starting from a given store.\<close>

fun run_posts :: "(env \<times> json) list \<Rightarrow> json list \<Rightarrow> json list" where
  "run_posts [] h = h"
| "run_posts ((e, b) # rs) h = run_posts rs (history (post_history e b h))"

text \<open>
  The other version of the route keeps the history in Firestore when it is configured
  and falls back to the same in-memory list when it is not. \<open>db\<close> is the configured
  store, its \<open>add\<close> giving the new document's id or throwing; the entry has no id of
  its own, the fallback puts one in front of its fields.
\<close>

definition stored_fields :: "env \<Rightarrow> (string \<Rightarrow> json) \<Rightarrow> (string \<times> json) list" where
  "stored_fields e f =
     [(''userId'', f ''userId''),
      (''product'', f ''product''),
      (''analysisType'', js_or (f ''analysisType'') (JStr ''general'')),
      (''summary'', js_or (f ''summary'') (JStr [])),
      (''data'', f ''data''),
      (''timestamp'', JNum (real (now_ts e))),
      (''date'', JStr (iso_date e))]"

definition post_history_store ::
  "(json \<Rightarrow> string + string) option \<Rightarrow> env \<Rightarrow> json \<Rightarrow> json list \<Rightarrow> history_outcome" where
  "post_history_store db e req_body analysisHistory =
     (case destructure_error req_body ''userId'' of
        Some msg \<Rightarrow>
          \<lparr>reply = res_status_json 500 (JObj [(''error'', JStr ''Failed to save analysis'')]),
           history = analysisHistory,
           logged = [''History save error: '' @ msg]\<rparr>
      | None \<Rightarrow>
          if \<not> truthy (field req_body ''userId'') \<or> \<not> truthy (field req_body ''product'')
          then
            \<lparr>reply = res_status_json 400
               (JObj [(''error'', JStr ''userId and product are required'')]),
             history = analysisHistory,
             logged = []\<rparr>
          else
            (let entry = stored_fields e (field req_body)
             in case db of
                  Some add \<Rightarrow>
                    (case add (JObj entry) of
                       Inl msg \<Rightarrow>
                         \<lparr>reply = res_status_json 500
                            (JObj [(''error'', JStr ''Failed to save analysis'')]),
                          history = analysisHistory,
                          logged = [''History save error: '' @ msg]\<rparr>
                     | Inr doc_id \<Rightarrow>
                         \<lparr>reply = res_json (JObj [(''success'', JBool True),
                                                  (''id'', JStr doc_id),
                                                  (''entry'', JObj entry)]),
                          history = analysisHistory,
                          logged = []\<rparr>)
                | None \<Rightarrow>
                    (let localEntry = JObj ((''id'', JStr (to_string36 (now_id e))) # entry);
                         pushed = analysisHistory @ [localEntry]
                     in \<lparr>reply = res_json (JObj [(''success'', JBool True),
                                                  (''entry'', localEntry)]),
                         history =
                           (if length pushed > 500 then slice_last 500 pushed else pushed),
                         logged = []\<rparr>)))"

section \<open>Which statuses the marine loop acts on\<close>

text \<open>
  The guard of the loop, \<open>vs.status === 'distress' && vs.vessel\<close>, in two parts: the
  status entry is classified distress, and it carries a (truthy) vessel object.
\<close>

definition classified_distress :: "json \<Rightarrow> bool" where
  "classified_distress vs = (field vs ''status'' = JStr ''distress'')"

definition spill_wanted :: "json \<Rightarrow> bool" where
  "spill_wanted vs = (classified_distress vs \<and> truthy (field vs ''vessel''))"

text \<open>An element of the status list whose \<open>.status\<close> can be read without a TypeError.\<close>

definition readable :: "json \<Rightarrow> bool" where
  "readable vs = (vs \<noteq> JNull \<and> vs \<noteq> JUndefined)"

text \<open>
  What one status entry adds to \<open>spillResults\<close> and to the console: the tagged estimate
  when the post to \<open>/detect_oil_spill\<close> resolves, the logged line when it throws.
\<close>

definition spill_result :: "service \<Rightarrow> json \<Rightarrow> json list" where
  "spill_result svc vs =
     (case svc ''/detect_oil_spill'' (spill_payload vs) of
        Inr data \<Rightarrow> [spill_entry data vs]
      | Inl msg \<Rightarrow> [])"

definition spill_failure :: "service \<Rightarrow> json \<Rightarrow> string list" where
  "spill_failure svc vs =
     (case svc ''/detect_oil_spill'' (spill_payload vs) of
        Inr data \<Rightarrow> []
      | Inl msg \<Rightarrow> [spill_error_line msg])"

section \<open>Concrete inputs\<close>

definition sample_env :: env where
  "sample_env =
     \<lparr>now_id = 1700000000000, random36 = ''4fzzzxjylrx'', now_ts = 1700000000000,
      iso_date = ''2023-11-14T22:13:20.000Z''\<rparr>"

definition sample_post :: "(string \<times> json) list" where
  "sample_post = [(''userId'', JStr ''u1''), (''product'', JStr ''AEGIS'')]"

text \<open>
  A service that reports two distress vessels and whose oil-spill estimator answers for
  the first and fails for the second.
\<close>

definition vessel_a :: json where
  "vessel_a = JObj [(''imo'', JStr ''IMO9000001''), (''type'', JStr ''Tanker'')]"

definition vessel_b :: json where
  "vessel_b = JObj [(''imo'', JStr ''IMO9000002''), (''type'', JStr ''Cargo'')]"

definition status_a :: json where
  "status_a = JObj [(''imo'', JStr ''IMO9000001''), (''status'', JStr ''distress''),
                    (''vessel'', vessel_a)]"

definition status_b :: json where
  "status_b = JObj [(''imo'', JStr ''IMO9000002''), (''status'', JStr ''distress''),
                    (''vessel'', vessel_b)]"

definition status_c :: json where
  "status_c = JObj [(''imo'', JStr ''IMO9000003''), (''status'', JStr ''normal''),
                    (''vessel'', JObj [(''imo'', JStr ''IMO9000003'')])]"

definition anomaly_data :: json where
  "anomaly_data = JObj [(''vessel_statuses'', JArr [status_a, status_c, status_b])]"

definition flaky_service :: service where
  "flaky_service endpoint payload =
     (if endpoint = ''/detect_vessel_anomaly'' then Inr anomaly_data
      else if payload = JObj [(''vessel'', vessel_b)]
      then Inl ''Request failed with status code 500''
      else Inr (JObj [(''probability'', JNum 1)]))"

section \<open>The vessel anomaly detector, modelled from the specification\<close>

text \<open>
  Modelled from the spec: the vessel anomaly detector. It runs in the Python service
  (microservices/), which is not among the gateway's sources. What follows is the
  specification's account of it (data model, component design 4.5,
  external interfaces, design notes), with the parts the specification leaves open taken
  as parameters: how a vessel of the simulated fleet is derived from the seed, and the
  three rules with their configured thresholds.
\<close>

text \<open>
  Modelled from the spec: a Vessel is an identity (IMO), a position, speed over ground,
  course over ground, a type and a short history of prior observations (speed, course).
\<close>

record vessel =
  v_imo :: string
  v_lat :: real
  v_lon :: real
  v_sog :: real
  v_cog :: real
  v_type :: string
  v_track :: "(real \<times> real) list"

text \<open>Modelled from the spec: the three kinds of anomaly and the three statuses.\<close>

datatype anomaly_kind = SpeedDrop | CourseDeviation | UnexpectedStop

datatype vessel_state = Normal | Suspicious | Distress

text \<open>
  Modelled from the spec: the combination policy. Zero anomalies is normal; exactly one
  is suspicious; two or more, or any single anomaly of the highest-severity kind
  (unexpected stop), is distress.
\<close>

definition combine :: "anomaly_kind list \<Rightarrow> vessel_state" where
  "combine found =
     (if found = [] then Normal
      else if 2 \<le> length found \<or> UnexpectedStop \<in> set found then Distress
      else Suspicious)"

text \<open>
  Modelled from the spec: a VesselStatus is the vessel, its status and its anomalies,
  the status a function of the anomaly set. The rules are a parameter: a function from a
  vessel to the anomalies it shows.
\<close>

record vessel_status =
  vs_vessel :: vessel
  vs_state :: vessel_state
  vs_anomalies :: "anomaly_kind list"

definition evaluate :: "(vessel \<Rightarrow> anomaly_kind list) \<Rightarrow> vessel \<Rightarrow> vessel_status" where
  "evaluate rules v =
     \<lparr>vs_vessel = v, vs_state = combine (rules v), vs_anomalies = rules v\<rparr>"

text \<open>Modelled from the spec: the summary holds the total, normal, suspicious and distress counts.\<close>

record summary =
  s_total :: nat
  s_normal :: nat
  s_suspicious :: nat
  s_distress :: nat

definition summarise :: "vessel_status list \<Rightarrow> summary" where
  "summarise sts =
     \<lparr>s_total = length sts,
      s_normal = length (filter (\<lambda>s. vs_state s = Normal) sts),
      s_suspicious = length (filter (\<lambda>s. vs_state s = Suspicious) sts),
      s_distress = length (filter (\<lambda>s. vs_state s = Distress) sts)\<rparr>"

text \<open>
  Modelled from the spec: the simulated fleet is a pure function from a fixed seed to a
  batch of 8 vessels, derived again on every call. \<open>gen seed i\<close> is vessel number \<open>i\<close>
  of the fleet for that seed.
\<close>

definition simulated_fleet :: "(nat \<Rightarrow> nat \<Rightarrow> vessel) \<Rightarrow> nat \<Rightarrow> vessel list" where
  "simulated_fleet gen seed = map (gen seed) [0..<8]"

text \<open>
  Modelled from the spec: \<open>detect_vessel_anomalies(vessels?)\<close> gives one status per
  vessel and the summary; with the vessels omitted it uses the simulated fleet. (The
  alerts of the result play no part in the statuses and the summary and are left out.)
\<close>

record analysis =
  a_statuses :: "vessel_status list"
  a_summary :: summary

definition detect_vessel_anomalies ::
  "(nat \<Rightarrow> nat \<Rightarrow> vessel) \<Rightarrow> nat \<Rightarrow> (vessel \<Rightarrow> anomaly_kind list) \<Rightarrow>
   vessel list option \<Rightarrow> analysis" where
  "detect_vessel_anomalies gen seed rules vessels =
     (let batch = (case vessels of None \<Rightarrow> simulated_fleet gen seed | Some vs \<Rightarrow> vs);
          sts = map (evaluate rules) batch
      in \<lparr>a_statuses = sts, a_summary = summarise sts\<rparr>)"

text \<open>
  Modelled from the spec: the detector behind the gateway's endpoint. The field names are the ones the gateway
  and the front end read (\<open>vessel_statuses\<close>, \<open>status\<close>, \<open>vessel\<close>, \<open>imo\<close>,
  \<open>summary.total\<close>, \<open>summary.distress\<close>); a payload whose \<open>vessels\<close> is \<open>null\<close>
  is a call with the vessels omitted. How a supplied batch is read from JSON (\<open>decode\<close>)
  and the oil-spill estimator (\<open>estimate\<close>) are parameters.
\<close>

fun state_name :: "vessel_state \<Rightarrow> string" where
  "state_name Normal = ''normal''"
| "state_name Suspicious = ''suspicious''"
| "state_name Distress = ''distress''"

fun kind_name :: "anomaly_kind \<Rightarrow> string" where
  "kind_name SpeedDrop = ''speed_drop''"
| "kind_name CourseDeviation = ''course_deviation''"
| "kind_name UnexpectedStop = ''unexpected_stop''"

definition encode_vessel :: "vessel \<Rightarrow> json" where
  "encode_vessel v =
     JObj [(''imo'', JStr (v_imo v)), (''lat'', JNum (v_lat v)), (''lon'', JNum (v_lon v)),
           (''sog'', JNum (v_sog v)), (''cog'', JNum (v_cog v)), (''type'', JStr (v_type v))]"

definition encode_status :: "vessel_status \<Rightarrow> json" where
  "encode_status s =
     JObj [(''imo'', JStr (v_imo (vs_vessel s))),
           (''status'', JStr (state_name (vs_state s))),
           (''vessel'', encode_vessel (vs_vessel s)),
           (''anomalies'', JArr (map (\<lambda>k. JStr (kind_name k)) (vs_anomalies s)))]"

definition encode_summary :: "summary \<Rightarrow> json" where
  "encode_summary c =
     JObj [(''total'', JNum (real (s_total c))), (''normal'', JNum (real (s_normal c))),
           (''suspicious'', JNum (real (s_suspicious c))),
           (''distress'', JNum (real (s_distress c)))]"

definition encode_analysis :: "analysis \<Rightarrow> json" where
  "encode_analysis a =
     JObj [(''vessel_statuses'', JArr (map encode_status (a_statuses a))),
           (''summary'', encode_summary (a_summary a))]"

definition marine_service ::
  "(nat \<Rightarrow> nat \<Rightarrow> vessel) \<Rightarrow> nat \<Rightarrow> (vessel \<Rightarrow> anomaly_kind list) \<Rightarrow>
   (json \<Rightarrow> vessel list) \<Rightarrow> (json \<Rightarrow> string + json) \<Rightarrow> service" where
  "marine_service gen seed rules decode estimate endpoint payload =
     (if endpoint = ''/detect_vessel_anomaly''
      then Inr (encode_analysis
             (detect_vessel_anomalies gen seed rules
                (if field payload ''vessels'' = JNull then None
                 else Some (decode (field payload ''vessels'')))))
      else estimate payload)"

text \<open>
  A concrete fleet and rule set for the detector: vessel \<open>i\<close> sails at \<open>i\<close> knots, a
  vessel at rest shows an unexpected stop and one below 3 knots a speed drop.
\<close>

definition sample_gen :: "nat \<Rightarrow> nat \<Rightarrow> vessel" where
  "sample_gen seed i =
     \<lparr>v_imo = ''IMO'' @ show_nat (9000000 + seed + i), v_lat = 13, v_lon = 80,
      v_sog = real i, v_cog = 90, v_type = ''Tanker'', v_track = []\<rparr>"

definition sample_rules :: "vessel \<Rightarrow> anomaly_kind list" where
  "sample_rules v =
     (if v_sog v = 0 then [UnexpectedStop] else if v_sog v < 3 then [SpeedDrop] else [])"

definition sample_marine_service :: service where
  "sample_marine_service =
     marine_service sample_gen 42 sample_rules (\<lambda>j. [])
       (\<lambda>p. Inr (JObj [(''probability'', JNum 1)]))"

section \<open>The plume simulator, modelled from the specification\<close>

text \<open>
  Modelled from the spec: the plume propagation simulator. It runs in the Python service
  (microservices/), which is not among the gateway's sources. What follows is the
  specification's account of it (data model, component design 4.3,
  error handling), in the plane of the projection, with the constants the specification
  leaves open taken as parameters: the diffusion coefficient of each source type, the
  shape of the ring (the offsets of its points at radius 1) and the population density.
\<close>

text \<open>Modelled from the spec: the three source types of a ContaminationSource.\<close>

datatype source_type = OilSpill | SewageOverflow | IndustrialDischarge

text \<open>Modelled from the spec: an error path gives a structured failure, a kind and a message.\<close>

datatype failure = ValidationError string | ComputationError string

text \<open>
  Modelled from the spec: the constants it leaves to the implementer, the diffusion
  coefficient of each source type, the shape of the ring and the population density.
\<close>

record plume_constants =
  diffusion :: "source_type \<Rightarrow> real"
  ring_shape :: "(real \<times> real) list"
  density :: real

text \<open>
  Modelled from the spec: the centroid moves each hour along the flow direction (a
  bearing in degrees), scaled by the flow speed.
\<close>

definition plume_centroid :: "real \<times> real \<Rightarrow> real \<Rightarrow> real \<Rightarrow> nat \<Rightarrow> real \<times> real" where
  "plume_centroid src dir speed h =
     (fst src + real h * speed * sin (dir * pi / 180),
      snd src + real h * speed * cos (dir * pi / 180))"

text \<open>
  Modelled from the spec: the radius follows a diffusion law, proportional to the square
  root of the hour and scaled by the coefficient of the source type.
\<close>

definition plume_radius :: "plume_constants \<Rightarrow> source_type \<Rightarrow> nat \<Rightarrow> real" where
  "plume_radius K st h = diffusion K st * sqrt (real h)"

text \<open>Modelled from the spec: the polygon is a closed ring of points around the advected centroid.\<close>

definition plume_polygon :: "plume_constants \<Rightarrow> real \<times> real \<Rightarrow> real \<Rightarrow> (real \<times> real) list" where
  "plume_polygon K c r = map (\<lambda>d. (fst c + r * fst d, snd c + r * snd d)) (ring_shape K)"

text \<open>
  Modelled from the spec: the affected area is the planar area of the polygon, here by
  the surveyor's formula over the ring closed with its first point.
\<close>

fun cross_sum :: "(real \<times> real) list \<Rightarrow> real" where
  "cross_sum (p # q # ps) = (fst p * snd q - fst q * snd p) + cross_sum (q # ps)"
| "cross_sum ps = 0"

fun planar_area :: "(real \<times> real) list \<Rightarrow> real" where
  "planar_area [] = 0"
| "planar_area (p # ps) = \<bar>cross_sum (p # ps @ [p])\<bar> / 2"

text \<open>
  Modelled from the spec: a PlumeTimeStep has the hour index, the polygon, the affected
  area and the population exposure, which is the area times the density constant. (The
  intensity, the risk grid and the infrastructure at risk play no part in the number of
  steps and in the areas and are left out.)
\<close>

record plume_time_step =
  ts_hour :: nat
  ts_polygon :: "(real \<times> real) list"
  ts_area :: real
  ts_exposure :: real

definition plume_step ::
  "plume_constants \<Rightarrow> real \<times> real \<Rightarrow> source_type \<Rightarrow> real \<Rightarrow> real \<Rightarrow> nat \<Rightarrow> plume_time_step" where
  "plume_step K src st dir speed h =
     (let poly = plume_polygon K (plume_centroid src dir speed h) (plume_radius K st h)
      in \<lparr>ts_hour = h, ts_polygon = poly, ts_area = planar_area poly,
          ts_exposure = planar_area poly * density K\<rparr>)"

text \<open>
  Modelled from the spec: a duration below 1 or above 24 is a ValidationError, rejected
  before any computation; otherwise the result is one time step per hour from 0 to the
  duration inclusive, in hour order.
\<close>

definition simulate_propagation ::
  "plume_constants \<Rightarrow> real \<times> real \<Rightarrow> source_type \<Rightarrow> real \<Rightarrow> real \<Rightarrow> int \<Rightarrow>
   failure + plume_time_step list" where
  "simulate_propagation K src st dir speed hours =
     (if hours < 1 \<or> 24 < hours
      then Inl (ValidationError ''simulation_hours must be between 1 and 24'')
      else Inr (map (plume_step K src st dir speed) [0..<Suc (nat hours)]))"

text \<open>
  Modelled from the spec: the simulator behind the gateway's endpoint. The field names are the ones the gateway
  posts and the front end reads (\<open>time_steps\<close>, \<open>hour\<close>, \<open>plume_polygon\<close>,
  \<open>area_km2\<close>); a payload that is not a well-formed request, or that the simulator
  rejects, is answered with a client-error status, which \<open>axios\<close> turns into a thrown
  error with the message below.
\<close>

definition decode_source_type :: "json \<Rightarrow> source_type option" where
  "decode_source_type j =
     (if j = JStr ''Oil Spill'' then Some OilSpill
      else if j = JStr ''Sewage Overflow'' then Some SewageOverflow
      else if j = JStr ''Industrial Discharge'' then Some IndustrialDischarge
      else None)"

fun decode_num :: "json \<Rightarrow> real option" where
  "decode_num (JNum x) = Some x"
| "decode_num j = None"

definition encode_point :: "real \<times> real \<Rightarrow> json" where
  "encode_point p = JArr [JNum (snd p), JNum (fst p)]"

definition encode_step :: "plume_time_step \<Rightarrow> json" where
  "encode_step s =
     JObj [(''hour'', JNum (real (ts_hour s))),
           (''plume_polygon'', JArr (map encode_point (ts_polygon s))),
           (''area_km2'', JNum (ts_area s)),
           (''population_exposure'', JNum (ts_exposure s))]"

definition rejected :: "string + json" where
  "rejected = Inl ''Request failed with status code 422''"

definition cascade_service :: "plume_constants \<Rightarrow> service" where
  "cascade_service K endpoint payload =
     (case (decode_num (field payload ''source_lat''),
            decode_num (field payload ''source_lon''),
            decode_source_type (field payload ''source_type''),
            decode_num (field payload ''flow_direction''),
            decode_num (field payload ''flow_speed''),
            decode_num (field payload ''simulation_hours'')) of
        (Some lat, Some lon, Some st, Some dir, Some speed, Some h) \<Rightarrow>
          if real_of_int \<lfloor>h\<rfloor> \<noteq> h then rejected
          else (case simulate_propagation K (lon, lat) st dir speed \<lfloor>h\<rfloor> of
                  Inl e \<Rightarrow> rejected
                | Inr steps \<Rightarrow> Inr (JObj [(''time_steps'', JArr (map encode_step steps))]))
      | _ \<Rightarrow> rejected)"

text \<open>
  Concrete constants: a square ring, and oil spreading faster than sewage and sewage
  faster than industrial discharge.
\<close>

definition sample_constants :: plume_constants where
  "sample_constants =
     \<lparr>diffusion = (\<lambda>st. case st of OilSpill \<Rightarrow> 3 | SewageOverflow \<Rightarrow> 2
                                   | IndustrialDischarge \<Rightarrow> 1),
      ring_shape = [(1, 0), (0, 1), (- 1, 0), (0, - 1)],
      density = 1000\<rparr>"

section \<open>The dispatch router, modelled from the specification\<close>

text \<open>
  Modelled from the spec: the dispatch router. It runs in the Python service
  (microservices/), which is not among the gateway's sources. What follows is the
  specification's account of it (data model, component designs 4.1 and
  4.2).
\<close>

text \<open>
  Modelled from the spec: the status tier uses fixed thresholds, a score above 70 is
  critical, a score from 40 to 70 is warning and a score below 40 is normal.
\<close>

datatype tier = TierNormal | TierWarning | TierCritical

definition status_tier :: "real \<Rightarrow> tier" where
  "status_tier score =
     (if score > 70 then TierCritical else if score \<ge> 40 then TierWarning else TierNormal)"

text \<open>
  Modelled from the spec: a scored Zone has an identity, a name and a fragility score;
  its status tier is the tier of its score. (The position and the feature vector play no
  part in the routing and are left out.)
\<close>

record zone =
  z_id :: nat
  z_name :: string
  z_score :: real

definition zone_status :: "zone \<Rightarrow> tier" where
  "zone_status z = status_tier (z_score z)"

text \<open>
  Modelled from the spec: the zone graph is static, its edges join two zones and carry a
  cost (a distance). The cheapest path costs from one zone come from a single-source
  shortest-path computation: every edge is relaxed in both directions, once per round,
  for as many rounds as there are zones.
\<close>

type_synonym edge = "nat \<times> nat \<times> real"

definition relax :: "(nat \<Rightarrow> real option) \<Rightarrow> nat \<Rightarrow> nat \<Rightarrow> real \<Rightarrow> (nat \<Rightarrow> real option)" where
  "relax d u v c =
     (case d u of
        None \<Rightarrow> d
      | Some du \<Rightarrow>
          (case d v of
             None \<Rightarrow> d(v \<mapsto> du + c)
           | Some dv \<Rightarrow> if du + c < dv then d(v \<mapsto> du + c) else d))"

definition relax_edge :: "edge \<Rightarrow> (nat \<Rightarrow> real option) \<Rightarrow> (nat \<Rightarrow> real option)" where
  "relax_edge e d = (case e of (u, v, c) \<Rightarrow> relax (relax d u v c) v u c)"

definition relax_round :: "edge list \<Rightarrow> (nat \<Rightarrow> real option) \<Rightarrow> (nat \<Rightarrow> real option)" where
  "relax_round edges d = fold relax_edge edges d"

definition shortest_costs :: "edge list \<Rightarrow> nat \<Rightarrow> nat \<Rightarrow> (nat \<Rightarrow> real option)" where
  "shortest_costs edges rounds s = (relax_round edges ^^ rounds) [s \<mapsto> 0]"

text \<open>
  Modelled from the spec: the origin of the route to a critical zone is the reachable zone
  that is not critical with the lowest path cost; ties go to the lowest fragility score
  and then to the lowest zone identifier.
\<close>

definition cost_of :: "(nat \<Rightarrow> real option) \<Rightarrow> zone \<Rightarrow> real" where
  "cost_of costs z = (case costs (z_id z) of Some c \<Rightarrow> c | None \<Rightarrow> 0)"

definition preferred :: "(nat \<Rightarrow> real option) \<Rightarrow> zone \<Rightarrow> zone \<Rightarrow> bool" where
  "preferred costs a b =
     (cost_of costs a < cost_of costs b
      \<or> (cost_of costs a = cost_of costs b
          \<and> (z_score a < z_score b \<or> (z_score a = z_score b \<and> z_id a < z_id b))))"

fun pick_origin :: "(nat \<Rightarrow> real option) \<Rightarrow> zone \<Rightarrow> zone list \<Rightarrow> zone" where
  "pick_origin costs best [] = best"
| "pick_origin costs best (z # zs) =
     pick_origin costs (if preferred costs z best then z else best) zs"

definition candidates :: "(nat \<Rightarrow> real option) \<Rightarrow> zone list \<Rightarrow> zone list" where
  "candidates costs zones =
     filter (\<lambda>z. zone_status z \<noteq> TierCritical \<and> costs (z_id z) \<noteq> None) zones"

text \<open>
  Modelled from the spec: a DispatchRoute is an origin, a destination and the path cost;
  a critical zone with no valid origin is flagged as dispatch unavailable, not dropped.
  (The lag time of a route plays no part in the choice and is left out.)
\<close>

datatype dispatch = Route zone zone real | Unavailable zone

definition route_for :: "edge list \<Rightarrow> zone list \<Rightarrow> zone \<Rightarrow> dispatch" where
  "route_for edges zones dest =
     (let costs = shortest_costs edges (length zones) (z_id dest)
      in case candidates costs zones of
           [] \<Rightarrow> Unavailable dest
         | z # zs \<Rightarrow>
             (let origin = pick_origin costs z zs
              in Route origin dest (cost_of costs origin)))"

text \<open>Modelled from the spec: the plan has one entry per critical zone, none when no zone is critical.\<close>

definition dispatch_plan :: "edge list \<Rightarrow> zone list \<Rightarrow> dispatch list" where
  "dispatch_plan edges zones =
     map (route_for edges zones) (filter (\<lambda>z. zone_status z = TierCritical) zones)"

text \<open>Three zones, one of them critical, and the roads between them.\<close>

definition zone_a :: zone where
  "zone_a = \<lparr>z_id = 1, z_name = ''North'', z_score = 82\<rparr>"

definition zone_b :: zone where
  "zone_b = \<lparr>z_id = 2, z_name = ''Harbour'', z_score = 31\<rparr>"

definition zone_c :: zone where
  "zone_c = \<lparr>z_id = 3, z_name = ''Old Town'', z_score = 55\<rparr>"

definition sample_edges :: "edge list" where
  "sample_edges = [(1, 3, 4), (3, 2, 2), (1, 2, 7)]"

section \<open>Reading request bodies\<close>

lemma field_obj:
  "field (JObj fs) k = (case map_of fs k of None \<Rightarrow> JUndefined | Some v \<Rightarrow> v)"
  by (simp add: field_def)

lemma destructure_obj: "destructure_error (JObj fs) k = None"
  by (simp add: destructure_error_def)

section \<open>Duration 0 and direction 0 at the gateway\<close>

lemma simulate_request_payload:
  "simulate_payload (field (simulate_request dir hours)) =
     JObj [(''source_lat'', JNum 13), (''source_lon'', JNum 80),
           (''source_type'', JStr ''Oil Spill''),
           (''flow_direction'', js_or (JNum dir) (JNum 180)),
           (''flow_speed'', JNum 2),
           (''simulation_hours'', js_or (JNum hours) (JNum 12))]"
  by (simp add: simulate_request_def field_obj simulate_payload_def js_or_def)

lemma simulate_request_destructures:
  "destructure_error (simulate_request dir hours) k = None"
  by (simp add: simulate_request_def destructure_error_def)

lemma cascade_simulate_request:
  "cascade_simulate svc (simulate_request dir hours) =
     (let payload = simulate_payload (field (simulate_request dir hours));
          cs = [(''/simulate_propagation'', payload)]
      in case svc ''/simulate_propagation'' payload of
           Inl msg \<Rightarrow> simulate_failed msg cs
         | Inr data \<Rightarrow> \<lparr>response = res_json data, calls = cs, console = []\<rparr>)"
  by (simp add: cascade_simulate_def simulate_request_destructures)

lemma cascade_simulate_calls:
  "calls (cascade_simulate svc (simulate_request dir hours)) =
     [(''/simulate_propagation'', simulate_payload (field (simulate_request dir hours)))]"
  unfolding cascade_simulate_request Let_def
  by (cases "svc ''/simulate_propagation'' (simulate_payload (field (simulate_request dir hours)))")
     (simp_all add: simulate_failed_def)

text \<open>
  C1. A simulate request with \<open>simulation_hours = 0\<close> is not rejected: the gateway takes
  the 0 for a missing field and posts the default duration 12, so the service never sees
  the 0 and the answer is exactly the answer to the same request with
  \<open>simulation_hours = 12\<close>, whatever the service does. A duration of 30 is posted as it is.
\<close>

theorem simulate_zero_hours_defaulted:
  "calls (cascade_simulate svc (simulate_request 180 0)) =
     [(''/simulate_propagation'',
       JObj [(''source_lat'', JNum 13), (''source_lon'', JNum 80),
             (''source_type'', JStr ''Oil Spill''),
             (''flow_direction'', JNum 180), (''flow_speed'', JNum 2),
             (''simulation_hours'', JNum 12)])]
   \<and> cascade_simulate svc (simulate_request 180 0)
       = cascade_simulate svc (simulate_request 180 12)
   \<and> calls (cascade_simulate svc (simulate_request 180 30)) =
     [(''/simulate_propagation'',
       JObj [(''source_lat'', JNum 13), (''source_lon'', JNum 80),
             (''source_type'', JStr ''Oil Spill''),
             (''flow_direction'', JNum 180), (''flow_speed'', JNum 2),
             (''simulation_hours'', JNum 30)])]"
proof (intro conjI)
  show "calls (cascade_simulate svc (simulate_request 180 0)) =
     [(''/simulate_propagation'',
       JObj [(''source_lat'', JNum 13), (''source_lon'', JNum 80),
             (''source_type'', JStr ''Oil Spill''),
             (''flow_direction'', JNum 180), (''flow_speed'', JNum 2),
             (''simulation_hours'', JNum 12)])]"
    by (simp add: cascade_simulate_calls simulate_request_payload js_or_def)
  show "cascade_simulate svc (simulate_request 180 0)
       = cascade_simulate svc (simulate_request 180 12)"
    by (simp add: cascade_simulate_request simulate_request_payload js_or_def)
  show "calls (cascade_simulate svc (simulate_request 180 30)) =
     [(''/simulate_propagation'',
       JObj [(''source_lat'', JNum 13), (''source_lon'', JNum 80),
             (''source_type'', JStr ''Oil Spill''),
             (''flow_direction'', JNum 180), (''flow_speed'', JNum 2),
             (''simulation_hours'', JNum 30)])]"
    by (simp add: cascade_simulate_calls simulate_request_payload js_or_def)
qed

text \<open>
  C2. A simulate request with \<open>flow_direction = 0\<close> does not reach the service with
  direction 0: the gateway takes the 0 for a missing field and posts 180, so the answer
  is the one to the same request with \<open>flow_direction = 180\<close>.
\<close>

theorem simulate_zero_direction_replaced:
  "calls (cascade_simulate svc (simulate_request 0 12)) =
     [(''/simulate_propagation'',
       JObj [(''source_lat'', JNum 13), (''source_lon'', JNum 80),
             (''source_type'', JStr ''Oil Spill''),
             (''flow_direction'', JNum 180), (''flow_speed'', JNum 2),
             (''simulation_hours'', JNum 12)])]
   \<and> cascade_simulate svc (simulate_request 0 12)
       = cascade_simulate svc (simulate_request 180 12)"
proof (intro conjI)
  show "calls (cascade_simulate svc (simulate_request 0 12)) =
     [(''/simulate_propagation'',
       JObj [(''source_lat'', JNum 13), (''source_lon'', JNum 80),
             (''source_type'', JStr ''Oil Spill''),
             (''flow_direction'', JNum 180), (''flow_speed'', JNum 2),
             (''simulation_hours'', JNum 12)])]"
    by (simp add: cascade_simulate_calls simulate_request_payload js_or_def)
  show "cascade_simulate svc (simulate_request 0 12)
       = cascade_simulate svc (simulate_request 180 12)"
    by (simp add: cascade_simulate_request simulate_request_payload js_or_def)
qed

section \<open>The in-memory history keeps at most 500 entries\<close>

lemma post_history_rejected:
  "destructure_error b ''userId'' = None \<Longrightarrow>
   \<not> truthy (field b ''userId'') \<or> \<not> truthy (field b ''product'') \<Longrightarrow>
   post_history e b h =
     \<lparr>reply = res_status_json 400 (JObj [(''error'', JStr ''userId and product are required'')]),
      history = h, logged = []\<rparr>"
  by (simp add: post_history_def)

lemma post_history_accepted:
  "destructure_error b ''userId'' = None \<Longrightarrow>
   truthy (field b ''userId'') \<Longrightarrow> truthy (field b ''product'') \<Longrightarrow>
   history (post_history e b h) = slice_last 500 (h @ [history_entry e (field b)])"
  by (simp add: post_history_def Let_def slice_last_def)

lemma length_slice_last: "length (slice_last n xs) \<le> n"
  by (simp add: slice_last_def)

lemma post_history_length:
  "length h \<le> 500 \<Longrightarrow> length (history (post_history e b h)) \<le> 500"
  by (auto simp: post_history_def Let_def length_slice_last split: option.splits)

lemma post_history_store_length:
  "length h \<le> 500 \<Longrightarrow> length (history (post_history_store db e b h)) \<le> 500"
  by (auto simp: post_history_store_def Let_def length_slice_last
      split: option.splits sum.splits)

lemma run_posts_length:
  "length h \<le> 500 \<Longrightarrow> length (run_posts rs h) \<le> 500"
proof (induction rs arbitrary: h)
  case Nil
  then show ?case by simp
next
  case (Cons r rs)
  obtain e b where r: "r = (e, b)" by (cases r)
  show ?case unfolding r run_posts.simps
    by (rule Cons.IH) (rule post_history_length [OF Cons.prems])
qed

text \<open>
  C10. Starting from the empty store, after any sequence of posts the store holds at most
  500 entries, and each post keeps the bound (in the version of the route with the
  Firestore store as well). An accepted post appends its entry and keeps
  the last 500 entries, so what is dropped is the front of the list, the oldest entries.
  A body with no \<open>userId\<close> or no \<open>product\<close> is answered with status 400 and the store is
  left as it was.
\<close>

theorem post_history_cap:
  "length (run_posts rs []) \<le> 500
   \<and> (length h \<le> 500 \<longrightarrow>
        length (history (post_history e (JObj fs) h)) \<le> 500
        \<and> length (history (post_history_store db e (JObj fs) h)) \<le> 500)
   \<and> (truthy (field (JObj fs) ''userId'') \<and> truthy (field (JObj fs) ''product'') \<longrightarrow>
        history (post_history e (JObj fs) h)
          = drop (length h + 1 - 500) (h @ [history_entry e (field (JObj fs))]))
   \<and> (map_of fs ''userId'' = None \<or> map_of fs ''product'' = None \<longrightarrow>
        status (reply (post_history e (JObj fs) h)) = 400
        \<and> history (post_history e (JObj fs) h) = h)"
proof (intro conjI impI)
  show "length (run_posts rs []) \<le> 500"
    by (rule run_posts_length) simp
next
  assume "length h \<le> 500"
  then show "length (history (post_history e (JObj fs) h)) \<le> 500"
    and "length (history (post_history_store db e (JObj fs) h)) \<le> 500"
    by (rule post_history_length, rule post_history_store_length)
next
  assume "truthy (field (JObj fs) ''userId'') \<and> truthy (field (JObj fs) ''product'')"
  then show "history (post_history e (JObj fs) h)
          = drop (length h + 1 - 500) (h @ [history_entry e (field (JObj fs))])"
    using post_history_accepted [OF destructure_obj, of fs e h]
    by (simp add: slice_last_def)
next
  assume a: "map_of fs ''userId'' = None \<or> map_of fs ''product'' = None"
  then have "\<not> truthy (field (JObj fs) ''userId'') \<or> \<not> truthy (field (JObj fs) ''product'')"
    by (auto simp: field_obj)
  from post_history_rejected [OF destructure_obj this]
  show "status (reply (post_history e (JObj fs) h)) = 400"
    and "history (post_history e (JObj fs) h) = h"
    by (simp_all add: res_status_json_def)
qed

text \<open>
  C10, at a concrete store: a post to a full store of 500 entries drops the first entry
  and appends the new one; a post without \<open>product\<close> gets a 400 and changes nothing.
\<close>

theorem post_history_cap_witness:
  "length (replicate 500 JNull) \<le> 500
   \<and> length (history (post_history sample_env (JObj sample_post) (replicate 500 JNull))) \<le> 500
   \<and> truthy (field (JObj sample_post) ''userId'') \<and> truthy (field (JObj sample_post) ''product'')
   \<and> history (post_history sample_env (JObj sample_post) (replicate 500 JNull))
        = drop 1 (replicate 500 JNull @ [history_entry sample_env (field (JObj sample_post))])
   \<and> map_of [(''userId'', JStr ''u1'')] ''product'' = None
   \<and> status (reply (post_history sample_env (JObj [(''userId'', JStr ''u1'')]) [JNull])) = 400
   \<and> history (post_history sample_env (JObj [(''userId'', JStr ''u1'')]) [JNull]) = [JNull]"
  using post_history_cap [of "[]" "replicate 500 JNull" sample_env sample_post None]
    post_history_cap [of "[]" "[JNull]" sample_env "[(''userId'', JStr ''u1'')]" None]
  by (simp add: field_obj sample_post_def)

section \<open>The marine analysis: which vessels get an oil-spill estimate\<close>

lemma js_get_readable: "readable vs \<Longrightarrow> js_get vs k = Inr (field vs k)"
  by (cases vs) (simp_all add: readable_def field_def)

lemma spill_loop_step:
  "readable vs \<Longrightarrow>
   spill_loop svc (vs # rest) =
     (if spill_wanted vs then
        (let r = spill_loop svc rest
         in r\<lparr>spills := spill_result svc vs @ spills r,
              posts := (''/detect_oil_spill'', spill_payload vs) # posts r,
              errors := spill_failure svc vs @ errors r\<rparr>)
      else spill_loop svc rest)"
  by (simp add: js_get_readable spill_wanted_def classified_distress_def spill_result_def
      spill_failure_def Let_def split: sum.splits)

lemma spill_loop_throw:
  "\<not> readable vs \<Longrightarrow>
   \<exists>msg. spill_loop svc (vs # rest) = \<lparr>spills = [], posts = [], errors = [], thrown = Some msg\<rparr>"
  by (cases vs) (simp_all add: readable_def)

declare spill_loop.simps(2) [simp del]

lemma spill_loop_posts:
  "posts (spill_loop svc xs) =
     map (\<lambda>vs. (''/detect_oil_spill'', spill_payload vs))
       (filter spill_wanted (takeWhile readable xs))"
proof (induction xs)
  case Nil
  show ?case by simp
next
  case (Cons vs rest)
  show ?case
  proof (cases "readable vs")
    case True
    then show ?thesis by (simp add: spill_loop_step Cons.IH Let_def)
  next
    case False
    then obtain msg where
      "spill_loop svc (vs # rest) = \<lparr>spills = [], posts = [], errors = [], thrown = Some msg\<rparr>"
      using spill_loop_throw by blast
    with False show ?thesis by simp
  qed
qed

lemma spill_loop_readable:
  "\<forall>vs\<in>set xs. readable vs \<Longrightarrow>
   spill_loop svc xs =
     \<lparr>spills = concat (map (spill_result svc) (filter spill_wanted xs)),
      posts = map (\<lambda>vs. (''/detect_oil_spill'', spill_payload vs)) (filter spill_wanted xs),
      errors = concat (map (spill_failure svc) (filter spill_wanted xs)),
      thrown = None\<rparr>"
proof (induction xs)
  case Nil
  show ?case by simp
next
  case (Cons vs rest)
  then show ?case by (simp add: spill_loop_step Let_def)
qed


lemma marine_analyze_unfold:
  assumes "js_get req_body ''vessels'' = Inr v"
    and "svc ''/detect_vessel_anomaly'' (anomaly_payload v) = Inr data"
    and "js_get data ''vessel_statuses'' = Inr (JArr statuses)"
  shows "marine_analyze svc req_body =
     (let c0 = (''/detect_vessel_anomaly'', anomaly_payload v);
          r = spill_loop svc statuses
      in case thrown r of
           Some msg \<Rightarrow> marine_failed msg (c0 # posts r) (errors r)
         | None \<Rightarrow>
             \<lparr>response = res_json
                (JObj (set_prop (spread data) ''oil_spills'' (JArr (spills r)))),
              calls = c0 # posts r,
              console = errors r\<rparr>)"
  using assms by (simp add: marine_analyze_def js_or_def Let_def)

lemma marine_analyze_calls:
  assumes "js_get req_body ''vessels'' = Inr v"
    and "svc ''/detect_vessel_anomaly'' (anomaly_payload v) = Inr data"
    and "js_get data ''vessel_statuses'' = Inr (JArr statuses)"
  shows "calls (marine_analyze svc req_body) =
     (''/detect_vessel_anomaly'', anomaly_payload v) # posts (spill_loop svc statuses)"
  unfolding marine_analyze_unfold
    [where req_body = req_body and v = v and svc = svc and data = data
       and statuses = statuses, OF assms] Let_def
  by (cases "thrown (spill_loop svc statuses)") (simp_all add: marine_failed_def)

lemma marine_analyze_readable:
  assumes "js_get req_body ''vessels'' = Inr v"
    and "svc ''/detect_vessel_anomaly'' (anomaly_payload v) = Inr data"
    and "js_get data ''vessel_statuses'' = Inr (JArr statuses)"
    and "\<forall>vs\<in>set statuses. readable vs"
  shows "marine_analyze svc req_body =
     \<lparr>response = res_json
        (JObj (set_prop (spread data) ''oil_spills''
           (JArr (concat (map (spill_result svc) (filter spill_wanted statuses)))))),
      calls = (''/detect_vessel_anomaly'', anomaly_payload v)
              # map (\<lambda>vs. (''/detect_oil_spill'', spill_payload vs))
                  (filter spill_wanted statuses),
      console = concat (map (spill_failure svc) (filter spill_wanted statuses))\<rparr>"
  unfolding marine_analyze_unfold
    [where req_body = req_body and v = v and svc = svc and data = data
       and statuses = statuses, OF assms(1-3)]
    spill_loop_readable [OF assms(4)] Let_def
  by simp

lemma map_of_set_prop: "map_of (set_prop fs k v) k = Some v"
  by (induction fs k v rule: set_prop.induct) simp_all

lemma field_set_prop: "field (JObj (set_prop fs k v)) k = v"
  by (simp add: field_obj map_of_set_prop)

lemma spill_result_tagged:
  "r \<in> set (spill_result svc vs) \<Longrightarrow> field r ''vessel_imo'' = field vs ''imo''"
  by (auto simp: spill_result_def spill_entry_def field_set_prop split: sum.splits)

text \<open>
  The posts of a run for any list of status entries: the loop acts on the entries that
  pass its guard, up to the first entry whose status cannot be read.
\<close>

lemma marine_spill_calls_guarded:
  assumes "js_get req_body ''vessels'' = Inr v"
    and "svc ''/detect_vessel_anomaly'' (anomaly_payload v) = Inr data"
    and "js_get data ''vessel_statuses'' = Inr (JArr statuses)"
  shows "calls (marine_analyze svc req_body) =
           (''/detect_vessel_anomaly'', anomaly_payload v)
           # map (\<lambda>vs. (''/detect_oil_spill'', spill_payload vs))
               (filter spill_wanted (takeWhile readable statuses))
         \<and> ((\<forall>vs\<in>set statuses. readable vs) \<longrightarrow>
              field (body (response (marine_analyze svc req_body))) ''oil_spills''
                = JArr (concat (map (spill_result svc) (filter spill_wanted statuses)))
              \<and> (\<forall>r\<in>set (concat (map (spill_result svc) (filter spill_wanted statuses))).
                   \<exists>vs\<in>set statuses.
                     classified_distress vs \<and> field r ''vessel_imo'' = field vs ''imo''))"
proof (intro conjI impI ballI)
  show "calls (marine_analyze svc req_body) =
           (''/detect_vessel_anomaly'', anomaly_payload v)
           # map (\<lambda>vs. (''/detect_oil_spill'', spill_payload vs))
               (filter spill_wanted (takeWhile readable statuses))"
    using marine_analyze_calls
      [where req_body = req_body and v = v and svc = svc and data = data
         and statuses = statuses, OF assms]
    by (simp add: spill_loop_posts)
next
  assume "\<forall>vs\<in>set statuses. readable vs"
  then show "field (body (response (marine_analyze svc req_body))) ''oil_spills''
                = JArr (concat (map (spill_result svc) (filter spill_wanted statuses)))"
    using marine_analyze_readable
      [where req_body = req_body and v = v and svc = svc and data = data
         and statuses = statuses, OF assms]
    by (simp add: res_json_def field_set_prop)
next
  fix r
  assume "r \<in> set (concat (map (spill_result svc) (filter spill_wanted statuses)))"
  then obtain vs where vs: "vs \<in> set statuses" "spill_wanted vs" "r \<in> set (spill_result svc vs)"
    by auto
  from vs(2) have "classified_distress vs" by (simp add: spill_wanted_def)
  with vs(1) spill_result_tagged [OF vs(3)]
  show "\<exists>vs\<in>set statuses. classified_distress vs \<and> field r ''vessel_imo'' = field vs ''imo''"
    by blast
qed

lemma carries_vessel_readable: "truthy (field vs ''vessel'') \<Longrightarrow> readable vs"
  by (cases vs) (simp_all add: readable_def field_def)

lemma carries_vessel_wanted:
  "\<forall>vs\<in>set xs. truthy (field vs ''vessel'') \<Longrightarrow>
   filter spill_wanted xs = filter classified_distress xs"
  by (rule filter_cong) (simp_all add: spill_wanted_def)

lemma carries_vessel_all_readable:
  "\<forall>vs\<in>set xs. truthy (field vs ''vessel'') \<Longrightarrow> takeWhile readable xs = xs"
  by (simp add: carries_vessel_readable)

text \<open>
  C3. When the anomaly detector answers with a list of status entries that each carry
  their vessel, the posts of the run are the one to the detector followed by exactly one
  post to the oil-spill estimator, with that vessel, for each entry classified distress,
  in the order of the list, and none for any other entry. \<open>oil_spills\<close> in the response
  holds the answers of the estimator that arrived, and each of them belongs to an entry
  classified distress and carries that entry's \<open>imo\<close> as \<open>vessel_imo\<close>.
\<close>

theorem marine_estimate_per_distress_vessel:
  assumes "js_get req_body ''vessels'' = Inr v"
    and "svc ''/detect_vessel_anomaly'' (anomaly_payload v) = Inr data"
    and "js_get data ''vessel_statuses'' = Inr (JArr statuses)"
    and "\<forall>vs\<in>set statuses. truthy (field vs ''vessel'')"
  shows "calls (marine_analyze svc req_body) =
           (''/detect_vessel_anomaly'', anomaly_payload v)
           # map (\<lambda>vs. (''/detect_oil_spill'', JObj [(''vessel'', field vs ''vessel'')]))
               (filter classified_distress statuses)
         \<and> field (body (response (marine_analyze svc req_body))) ''oil_spills''
             = JArr (concat (map (spill_result svc) (filter classified_distress statuses)))
         \<and> (\<forall>r\<in>set (concat (map (spill_result svc) (filter classified_distress statuses))).
               \<exists>vs\<in>set statuses.
                 classified_distress vs \<and> field r ''vessel_imo'' = field vs ''imo'')"
proof -
  have readable: "\<forall>vs\<in>set statuses. readable vs"
    using assms(4) by (simp add: carries_vessel_readable)
  note guarded = marine_spill_calls_guarded
    [where req_body = req_body and v = v and svc = svc and data = data
       and statuses = statuses, OF assms(1-3)]
  have posts: "calls (marine_analyze svc req_body) =
           (''/detect_vessel_anomaly'', anomaly_payload v)
           # map (\<lambda>vs. (''/detect_oil_spill'', JObj [(''vessel'', field vs ''vessel'')]))
               (filter classified_distress statuses)"
    using guarded
    by (simp add: carries_vessel_wanted [OF assms(4)] carries_vessel_all_readable [OF assms(4)]
        spill_payload_def)
  have spills: "field (body (response (marine_analyze svc req_body))) ''oil_spills''
             = JArr (concat (map (spill_result svc) (filter classified_distress statuses)))"
    using guarded readable by (simp add: carries_vessel_wanted [OF assms(4)])
  have tagged: "\<forall>r\<in>set (concat (map (spill_result svc) (filter classified_distress statuses))).
               \<exists>vs\<in>set statuses.
                 classified_distress vs \<and> field r ''vessel_imo'' = field vs ''imo''"
    using guarded readable by (simp add: carries_vessel_wanted [OF assms(4)])
  from posts spills tagged show ?thesis by blast
qed

text \<open>
  C4 (as amended). When the estimate for a distress vessel fails, the response is still
  a 200 that carries the detector's data and, in \<open>oil_spills\<close>, the estimates that
  arrived; the vessel whose estimate failed adds nothing to the response, and the message
  of its failure goes to the console only.
\<close>

theorem marine_spill_failure_dropped:
  assumes "js_get req_body ''vessels'' = Inr v"
    and "svc ''/detect_vessel_anomaly'' (anomaly_payload v) = Inr data"
    and "js_get data ''vessel_statuses'' = Inr (JArr statuses)"
    and "\<forall>vs\<in>set statuses. readable vs"
  shows "response (marine_analyze svc req_body) =
           \<lparr>status = 200,
            body = JObj (set_prop (spread data) ''oil_spills''
              (JArr (concat (map (spill_result svc) (filter spill_wanted statuses)))))\<rparr>
         \<and> console (marine_analyze svc req_body)
             = concat (map (spill_failure svc) (filter spill_wanted statuses))
         \<and> (\<forall>vs msg. svc ''/detect_oil_spill'' (spill_payload vs) = Inl msg \<longrightarrow>
               spill_result svc vs = []
               \<and> spill_failure svc vs = [''Oil spill detection error: '' @ msg])"
  using marine_analyze_readable
    [where req_body = req_body and v = v and svc = svc and data = data
       and statuses = statuses, OF assms]
  by (simp add: res_json_def spill_result_def spill_failure_def spill_error_line_def)


lemma flaky_statuses:
  "spill_wanted status_a" "\<not> spill_wanted status_c" "spill_wanted status_b"
  "readable status_a" "readable status_b" "readable status_c"
  by (simp_all add: spill_wanted_def classified_distress_def readable_def
      status_a_def status_b_def status_c_def field_obj vessel_a_def vessel_b_def)

lemma flaky_payloads:
  "spill_payload status_a = JObj [(''vessel'', vessel_a)]"
  "spill_payload status_b = JObj [(''vessel'', vessel_b)]"
  by (simp_all add: spill_payload_def status_a_def status_b_def field_obj)

lemma flaky_results:
  "spill_result flaky_service status_a
     = [JObj [(''probability'', JNum 1), (''vessel_imo'', JStr ''IMO9000001'')]]"
  "spill_result flaky_service status_b = []"
  "spill_failure flaky_service status_a = []"
  "spill_failure flaky_service status_b
     = [''Oil spill detection error: Request failed with status code 500'']"
  by (simp_all add: spill_result_def spill_failure_def flaky_payloads flaky_service_def
      spill_entry_def spill_error_line_def vessel_a_def vessel_b_def)
     (simp_all add: status_a_def field_obj)

lemma flaky_hyps:
  "js_get (JObj []) ''vessels'' = Inr JUndefined"
  "flaky_service ''/detect_vessel_anomaly'' (anomaly_payload JUndefined) = Inr anomaly_data"
  "js_get anomaly_data ''vessel_statuses'' = Inr (JArr [status_a, status_c, status_b])"
  by (simp_all add: flaky_service_def anomaly_data_def)

text \<open>
  C3, at a concrete run: three entries that carry their vessels, the first and the last
  classified distress; the estimator is posted to for these two, in that order.
\<close>

theorem marine_estimate_per_distress_vessel_witness:
  "js_get (JObj []) ''vessels'' = Inr JUndefined
   \<and> flaky_service ''/detect_vessel_anomaly'' (anomaly_payload JUndefined) = Inr anomaly_data
   \<and> js_get anomaly_data ''vessel_statuses'' = Inr (JArr [status_a, status_c, status_b])
   \<and> truthy (field status_a ''vessel'') \<and> truthy (field status_c ''vessel'')
   \<and> truthy (field status_b ''vessel'')
   \<and> filter classified_distress [status_a, status_c, status_b] = [status_a, status_b]
   \<and> calls (marine_analyze flaky_service (JObj []))
       = [(''/detect_vessel_anomaly'', anomaly_payload JUndefined),
          (''/detect_oil_spill'', JObj [(''vessel'', vessel_a)]),
          (''/detect_oil_spill'', JObj [(''vessel'', vessel_b)])]
   \<and> field (body (response (marine_analyze flaky_service (JObj [])))) ''oil_spills''
       = JArr [JObj [(''probability'', JNum 1), (''vessel_imo'', JStr ''IMO9000001'')]]"
proof -
  have carry: "truthy (field status_a ''vessel'')" "truthy (field status_c ''vessel'')"
    "truthy (field status_b ''vessel'')"
    by (simp_all add: status_a_def status_b_def status_c_def field_obj vessel_a_def
        vessel_b_def)
  then have all: "\<forall>vs\<in>set [status_a, status_c, status_b]. truthy (field vs ''vessel'')"
    by simp
  have distress: "filter classified_distress [status_a, status_c, status_b]
                    = [status_a, status_b]"
    using flaky_statuses(1-3) carry by (simp add: spill_wanted_def)
  have vessels: "field status_a ''vessel'' = vessel_a" "field status_b ''vessel'' = vessel_b"
    by (simp_all add: status_a_def status_b_def field_obj)
  note t = marine_estimate_per_distress_vessel
    [where req_body = "JObj []" and v = JUndefined and svc = flaky_service
       and data = anomaly_data and statuses = "[status_a, status_c, status_b]",
     OF flaky_hyps all]
  from t have "calls (marine_analyze flaky_service (JObj [])) =
       (''/detect_vessel_anomaly'', anomaly_payload JUndefined)
       # map (\<lambda>vs. (''/detect_oil_spill'', JObj [(''vessel'', field vs ''vessel'')]))
           (filter classified_distress [status_a, status_c, status_b])"
    by blast
  then have posts: "calls (marine_analyze flaky_service (JObj []))
       = [(''/detect_vessel_anomaly'', anomaly_payload JUndefined),
          (''/detect_oil_spill'', JObj [(''vessel'', vessel_a)]),
          (''/detect_oil_spill'', JObj [(''vessel'', vessel_b)])]"
    unfolding distress by (simp add: vessels)
  from t have
    "field (body (response (marine_analyze flaky_service (JObj [])))) ''oil_spills''
       = JArr (concat (map (spill_result flaky_service)
                 (filter classified_distress [status_a, status_c, status_b])))"
    by blast
  then have spills:
    "field (body (response (marine_analyze flaky_service (JObj [])))) ''oil_spills''
       = JArr [JObj [(''probability'', JNum 1), (''vessel_imo'', JStr ''IMO9000001'')]]"
    unfolding distress by (simp add: flaky_results)
  from flaky_hyps carry distress posts spills show ?thesis by blast
qed

text \<open>
  C4 as stated fails: the estimate for the second distress vessel fails, and the response
  is a 200 whose body has the detector's statuses and the first vessel's estimate and
  nothing about the failure, which is written to the console.
\<close>

theorem marine_spill_failure_not_surfaced:
  "flaky_service ''/detect_oil_spill'' (spill_payload status_b)
     = Inl ''Request failed with status code 500''
   \<and> marine_analyze flaky_service (JObj []) =
     \<lparr>response = \<lparr>status = 200,
        body = JObj [(''vessel_statuses'', JArr [status_a, status_c, status_b]),
                     (''oil_spills'',
                      JArr [JObj [(''probability'', JNum 1),
                                  (''vessel_imo'', JStr ''IMO9000001'')]])]\<rparr>,
      calls = [(''/detect_vessel_anomaly'', JObj [(''vessels'', JNull)]),
               (''/detect_oil_spill'', JObj [(''vessel'', vessel_a)]),
               (''/detect_oil_spill'', JObj [(''vessel'', vessel_b)])],
      console = [''Oil spill detection error: Request failed with status code 500'']\<rparr>"
proof
  show "flaky_service ''/detect_oil_spill'' (spill_payload status_b)
     = Inl ''Request failed with status code 500''"
    by (simp add: flaky_payloads flaky_service_def)
  have "\<forall>vs\<in>set [status_a, status_c, status_b]. readable vs"
    by (simp add: flaky_statuses)
  from marine_analyze_readable
    [where req_body = "JObj []" and v = JUndefined and svc = flaky_service
       and data = anomaly_data and statuses = "[status_a, status_c, status_b]",
     OF flaky_hyps this]
  show "marine_analyze flaky_service (JObj []) =
     \<lparr>response = \<lparr>status = 200,
        body = JObj [(''vessel_statuses'', JArr [status_a, status_c, status_b]),
                     (''oil_spills'',
                      JArr [JObj [(''probability'', JNum 1),
                                  (''vessel_imo'', JStr ''IMO9000001'')]])]\<rparr>,
      calls = [(''/detect_vessel_anomaly'', JObj [(''vessels'', JNull)]),
               (''/detect_oil_spill'', JObj [(''vessel'', vessel_a)]),
               (''/detect_oil_spill'', JObj [(''vessel'', vessel_b)])],
      console = [''Oil spill detection error: Request failed with status code 500'']\<rparr>"
    by (simp add: flaky_statuses flaky_payloads flaky_results anomaly_payload_def js_or_def
        res_json_def anomaly_data_def)
qed

text \<open>
  C4, at the same run: the estimate for the last entry fails, the response is a 200 and
  the console holds the one line of the failure.
\<close>

theorem marine_spill_failure_dropped_witness:
  "js_get (JObj []) ''vessels'' = Inr JUndefined
   \<and> flaky_service ''/detect_vessel_anomaly'' (anomaly_payload JUndefined) = Inr anomaly_data
   \<and> js_get anomaly_data ''vessel_statuses'' = Inr (JArr [status_a, status_c, status_b])
   \<and> readable status_a \<and> readable status_c \<and> readable status_b
   \<and> flaky_service ''/detect_oil_spill'' (spill_payload status_b)
       = Inl ''Request failed with status code 500''
   \<and> spill_result flaky_service status_b = []
   \<and> status (response (marine_analyze flaky_service (JObj []))) = 200
   \<and> console (marine_analyze flaky_service (JObj []))
       = [''Oil spill detection error: Request failed with status code 500'']"
proof -
  have r: "\<forall>vs\<in>set [status_a, status_c, status_b]. readable vs"
    by (simp add: flaky_statuses)
  have f: "flaky_service ''/detect_oil_spill'' (spill_payload status_b)
       = Inl ''Request failed with status code 500''"
    by (simp add: flaky_payloads flaky_service_def)
  from marine_spill_failure_dropped
    [where req_body = "JObj []" and v = JUndefined and svc = flaky_service
       and data = anomaly_data and statuses = "[status_a, status_c, status_b]",
     OF flaky_hyps r] f r
  show ?thesis
    by (simp add: flaky_hyps flaky_statuses flaky_results)
qed

section \<open>The marine analysis with the vessels omitted\<close>

lemma map_of_set_prop_other: "k \<noteq> k' \<Longrightarrow> map_of (set_prop fs k' v) k = map_of fs k"
  by (induction fs k' v rule: set_prop.induct) simp_all

lemma marine_analyze_first_call:
  "map_of fs ''vessels'' = None \<Longrightarrow>
   take 1 (calls (marine_analyze svc (JObj fs)))
     = [(''/detect_vessel_anomaly'', JObj [(''vessels'', JNull)])]"
  by (simp add: marine_analyze_def anomaly_payload_def js_or_def marine_failed_def Let_def
      split: sum.splits option.splits)

lemma marine_analyze_reads_vessels:
  "js_get b1 ''vessels'' = js_get b2 ''vessels'' \<Longrightarrow>
   marine_analyze svc b1 = marine_analyze svc b2"
  by (simp add: marine_analyze_def)

lemma summarise_partition:
  "s_normal (summarise sts) + s_suspicious (summarise sts) + s_distress (summarise sts)
     = s_total (summarise sts)"
proof (induction sts)
  case Nil
  show ?case by (simp add: summarise_def)
next
  case (Cons s sts)
  then show ?case by (cases "vs_state s") (simp_all add: summarise_def)
qed

lemma fleet_total: "s_total (summarise (map (evaluate rules) (simulated_fleet gen seed))) = 8"
  by (simp add: summarise_def simulated_fleet_def)

lemma encode_status_readable: "readable (encode_status s)"
  by (simp add: readable_def encode_status_def)

lemma marine_service_default:
  "marine_service gen seed rules decode estimate ''/detect_vessel_anomaly''
     (anomaly_payload JUndefined)
   = Inr (encode_analysis (detect_vessel_anomalies gen seed rules None))"
  by (simp add: marine_service_def anomaly_payload_def js_or_def field_obj)

lemma marine_default_summary:
  assumes "map_of fs ''vessels'' = None"
  shows "field (body (response
           (marine_analyze (marine_service gen seed rules decode estimate) (JObj fs))))
           ''summary''
         = encode_summary (summarise (map (evaluate rules) (simulated_fleet gen seed)))"
proof -
  let ?svc = "marine_service gen seed rules decode estimate"
  let ?a = "detect_vessel_anomalies gen seed rules None"
  have 1: "js_get (JObj fs) ''vessels'' = Inr JUndefined"
    using assms by simp
  have 3: "js_get (encode_analysis ?a) ''vessel_statuses''
             = Inr (JArr (map encode_status (a_statuses ?a)))"
    by (simp add: encode_analysis_def)
  have 4: "\<forall>vs\<in>set (map encode_status (a_statuses ?a)). readable vs"
    by (simp add: encode_status_readable)
  have "field (body (response (marine_analyze ?svc (JObj fs)))) ''summary''
          = encode_summary (a_summary ?a)"
    unfolding marine_analyze_readable
      [where req_body = "JObj fs" and v = JUndefined and svc = ?svc
         and data = "encode_analysis ?a" and statuses = "map encode_status (a_statuses ?a)",
       OF 1 marine_service_default 3 4]
    by (simp add: res_json_def field_obj map_of_set_prop_other encode_analysis_def)
  then show ?thesis
    by (simp add: detect_vessel_anomalies_def Let_def)
qed


text \<open>
  C9. A body without a \<open>vessels\<close> field makes the gateway post \<open>vessels: null\<close> to the
  detector, and the handler reads nothing else of the body, so two such calls have the
  same outcome. Behind the endpoint the detector then analyses the simulated fleet, a
  function of the seed alone with 8 vessels: the summary in the response is the summary of
  that fleet, its total is 8 and its three counts add up to 8.
\<close>

theorem marine_default_fleet:
  assumes "map_of fs ''vessels'' = None"
  shows "take 1 (calls (marine_analyze svc (JObj fs)))
           = [(''/detect_vessel_anomaly'', JObj [(''vessels'', JNull)])]
         \<and> (map_of fs' ''vessels'' = None \<longrightarrow>
              marine_analyze svc (JObj fs) = marine_analyze svc (JObj fs'))
         \<and> field (body (response
              (marine_analyze (marine_service gen seed rules decode estimate) (JObj fs))))
              ''summary''
             = encode_summary (summarise (map (evaluate rules) (simulated_fleet gen seed)))
         \<and> length (simulated_fleet gen seed) = 8
         \<and> s_total (summarise (map (evaluate rules) (simulated_fleet gen seed))) = 8
         \<and> s_normal (summarise (map (evaluate rules) (simulated_fleet gen seed)))
             + s_suspicious (summarise (map (evaluate rules) (simulated_fleet gen seed)))
             + s_distress (summarise (map (evaluate rules) (simulated_fleet gen seed))) = 8"
proof (intro conjI impI)
  show "take 1 (calls (marine_analyze svc (JObj fs)))
           = [(''/detect_vessel_anomaly'', JObj [(''vessels'', JNull)])]"
    by (rule marine_analyze_first_call [OF assms])
next
  assume "map_of fs' ''vessels'' = None"
  with assms have "js_get (JObj fs) ''vessels'' = js_get (JObj fs') ''vessels''"
    by simp
  then show "marine_analyze svc (JObj fs) = marine_analyze svc (JObj fs')"
    by (rule marine_analyze_reads_vessels)
next
  show "field (body (response
              (marine_analyze (marine_service gen seed rules decode estimate) (JObj fs))))
              ''summary''
             = encode_summary (summarise (map (evaluate rules) (simulated_fleet gen seed)))"
    by (rule marine_default_summary [OF assms])
next
  show "length (simulated_fleet gen seed) = 8"
    by (simp add: simulated_fleet_def)
next
  show "s_total (summarise (map (evaluate rules) (simulated_fleet gen seed))) = 8"
    by (rule fleet_total)
next
  show "s_normal (summarise (map (evaluate rules) (simulated_fleet gen seed)))
             + s_suspicious (summarise (map (evaluate rules) (simulated_fleet gen seed)))
             + s_distress (summarise (map (evaluate rules) (simulated_fleet gen seed))) = 8"
    by (simp only: summarise_partition fleet_total)
qed

lemma upt_8: "[0..<8] = [0, 1, 2, 3, 4, 5, 6, 7]"
  by (simp add: upt_rec)

lemma sample_summary:
  "summarise (map (evaluate sample_rules) (simulated_fleet sample_gen 42))
     = \<lparr>s_total = 8, s_normal = 5, s_suspicious = 2, s_distress = 1\<rparr>"
  by (simp add: simulated_fleet_def upt_8 summarise_def evaluate_def sample_rules_def
      sample_gen_def combine_def)

text \<open>
  C9, at the front end's own request (an empty object) and at one with another field:
  the same outcome, with the summary of the sample fleet.
\<close>

theorem marine_default_fleet_witness:
  "map_of ([] :: (string \<times> json) list) ''vessels'' = None
   \<and> map_of [(''requested_by'', JStr ''u1'')] ''vessels'' = None
   \<and> marine_analyze sample_marine_service (JObj [])
       = marine_analyze sample_marine_service (JObj [(''requested_by'', JStr ''u1'')])
   \<and> field (body (response (marine_analyze sample_marine_service (JObj [])))) ''summary''
       = JObj [(''total'', JNum 8), (''normal'', JNum 5), (''suspicious'', JNum 2),
               (''distress'', JNum 1)]"
proof -
  have c: "map_of ([] :: (string \<times> json) list) ''vessels'' = None"
    and d: "map_of [(''requested_by'', JStr ''u1'')] ''vessels'' = None"
    by simp_all
  note t = marine_default_fleet
    [of "[]" sample_marine_service "[(''requested_by'', JStr ''u1'')]"
        sample_gen 42 sample_rules "\<lambda>j. []" "\<lambda>p. Inr (JObj [(''probability'', JNum 1)])",
     OF c]
  from t d have a: "marine_analyze sample_marine_service (JObj [])
       = marine_analyze sample_marine_service (JObj [(''requested_by'', JStr ''u1'')])"
    by blast
  from t have "field (body (response
        (marine_analyze
           (marine_service sample_gen 42 sample_rules (\<lambda>j. [])
              (\<lambda>p. Inr (JObj [(''probability'', JNum 1)])))
           (JObj [])))) ''summary''
       = encode_summary (summarise (map (evaluate sample_rules) (simulated_fleet sample_gen 42)))"
    by blast
  then have b:
    "field (body (response (marine_analyze sample_marine_service (JObj [])))) ''summary''
       = JObj [(''total'', JNum 8), (''normal'', JNum 5), (''suspicious'', JNum 2),
               (''distress'', JNum 1)]"
    by (simp add: sample_marine_service_def sample_summary encode_summary_def)
  from a b c d show ?thesis by blast
qed

section \<open>The plume: number of time steps and growth of the area\<close>

lemma cross_sum_affine:
  "ps \<noteq> [] \<Longrightarrow>
   cross_sum (map (\<lambda>d. (cx + r * fst d, cy + r * snd d)) ps)
     = r * r * cross_sum ps
       + r * cx * (snd (last ps) - snd (hd ps))
       + r * cy * (fst (hd ps) - fst (last ps))"
  by (induction ps rule: cross_sum.induct) (simp_all add: algebra_simps)

lemma planar_area_affine:
  "planar_area (map (\<lambda>d. (cx + r * fst d, cy + r * snd d)) ps) = r * r * planar_area ps"
proof (cases ps)
  case Nil
  then show ?thesis by simp
next
  case (Cons p qs)
  have "cross_sum (map (\<lambda>d. (cx + r * fst d, cy + r * snd d)) (p # qs @ [p]))
          = r * r * cross_sum (p # qs @ [p])"
    using cross_sum_affine [of "p # qs @ [p]" cx r cy] by simp
  then show ?thesis
    using Cons by (simp add: abs_mult)
qed

lemma step_area:
  "ts_area (plume_step K src st dir speed h)
     = (diffusion K st)\<^sup>2 * planar_area (ring_shape K) * real h"
proof -
  have "ts_area (plume_step K src st dir speed h)
          = plume_radius K st h * plume_radius K st h * planar_area (ring_shape K)"
    by (simp add: plume_step_def plume_polygon_def planar_area_affine Let_def)
  also have "plume_radius K st h * plume_radius K st h = (diffusion K st)\<^sup>2 * real h"
    by (simp add: plume_radius_def power2_eq_square)
  finally show ?thesis by (simp add: mult_ac)
qed

lemma planar_area_nonneg: "0 \<le> planar_area ps"
  by (cases ps) simp_all

lemma step_area_mono:
  "i \<le> j \<Longrightarrow>
   ts_area (plume_step K src st dir speed i) \<le> ts_area (plume_step K src st dir speed j)"
  unfolding step_area
  by (intro mult_left_mono mult_nonneg_nonneg planar_area_nonneg) simp_all

lemma sorted_map_upt:
  assumes "\<And>i j. i \<le> j \<Longrightarrow> f i \<le> (f j :: real)"
  shows "sorted (map f [a..<b])"
  by (simp add: sorted_iff_nth_mono assms)

lemma areas_sorted: "sorted (map ts_area (map (plume_step K src st dir speed) [0..<n]))"
  unfolding map_map comp_def by (rule sorted_map_upt) (rule step_area_mono)


lemma simulate_propagation_valid:
  "1 \<le> hours \<Longrightarrow> hours \<le> 24 \<Longrightarrow>
   simulate_propagation K src st dir speed hours
     = Inr (map (plume_step K src st dir speed) [0..<Suc (nat hours)])"
  by (simp add: simulate_propagation_def)

lemma simulate_propagation_steps:
  "simulate_propagation K src st dir speed hours = Inr steps \<Longrightarrow>
   steps = map (plume_step K src st dir speed) [0..<Suc (nat hours)]"
  by (auto simp: simulate_propagation_def split: if_splits)

lemma step_hours: "map ts_hour (map (plume_step K src st dir speed) [0..<n]) = [0..<n]"
  by (simp add: plume_step_def Let_def comp_def map_idI)

lemma simulate_request_12: 
  "simulate_payload (field (simulate_request 180 12)) =
     JObj [(''source_lat'', JNum 13), (''source_lon'', JNum 80),
           (''source_type'', JStr ''Oil Spill''),
           (''flow_direction'', JNum 180), (''flow_speed'', JNum 2),
           (''simulation_hours'', JNum 12)]"
  by (simp add: simulate_request_payload js_or_def)

lemma cascade_service_12:
  "cascade_service K ''/simulate_propagation''
     (JObj [(''source_lat'', JNum 13), (''source_lon'', JNum 80),
           (''source_type'', JStr ''Oil Spill''),
           (''flow_direction'', JNum 180), (''flow_speed'', JNum 2),
           (''simulation_hours'', JNum 12)])
   = Inr (JObj [(''time_steps'',
        JArr (map encode_step (map (plume_step K (80, 13) OilSpill 180 2) [0..<13])))])"
  by (simp add: cascade_service_def field_obj decode_source_type_def
      simulate_propagation_def)

lemma cascade_simulate_12:
  "response (cascade_simulate (cascade_service K) (simulate_request 180 12))
     = \<lparr>status = 200,
        body = JObj [(''time_steps'',
          JArr (map encode_step (map (plume_step K (80, 13) OilSpill 180 2) [0..<13])))]\<rparr>"
  unfolding cascade_simulate_request simulate_request_12 Let_def cascade_service_12
  by (simp add: res_json_def)


text \<open>
  C7. The simulation of an oil spill with direction 180, speed 2 and 12 hours returns 13
  time steps, the hours 0 to 12 in order, and that is what the gateway answers to the
  request with these values, which it posts unchanged. Every duration from 1 to 24 gives
  a run, and in every run the areas of the time steps never decrease along the sequence:
  the area at hour \<open>h\<close> is the square of the diffusion coefficient times the area of the
  ring's shape times \<open>h\<close>.
\<close>

theorem plume_steps_and_areas:
  "simulate_propagation K src OilSpill 180 2 12
     = Inr (map (plume_step K src OilSpill 180 2) [0..<13])
   \<and> length (map (plume_step K src OilSpill 180 2) [0..<13]) = 13
   \<and> map ts_hour (map (plume_step K src OilSpill 180 2) [0..<13]) = [0..<13]
   \<and> response (cascade_simulate (cascade_service K) (simulate_request 180 12))
       = \<lparr>status = 200,
          body = JObj [(''time_steps'',
            JArr (map encode_step (map (plume_step K (80, 13) OilSpill 180 2) [0..<13])))]\<rparr>
   \<and> (1 \<le> hours \<and> hours \<le> 24 \<longrightarrow>
        (\<exists>steps. simulate_propagation K src st dir speed hours = Inr steps
                 \<and> length steps = nat hours + 1))
   \<and> (simulate_propagation K src st dir speed hours = Inr steps \<longrightarrow>
        sorted (map ts_area steps)
        \<and> (\<forall>i j. i \<le> j \<and> j < length steps \<longrightarrow> ts_area (steps ! i) \<le> ts_area (steps ! j)))"
proof (intro conjI impI)
  show "simulate_propagation K src OilSpill 180 2 12
     = Inr (map (plume_step K src OilSpill 180 2) [0..<13])"
    by (simp add: simulate_propagation_def)
  show "length (map (plume_step K src OilSpill 180 2) [0..<13]) = 13"
    by simp
  show "map ts_hour (map (plume_step K src OilSpill 180 2) [0..<13]) = [0..<13]"
    by (rule step_hours)
  show "response (cascade_simulate (cascade_service K) (simulate_request 180 12))
       = \<lparr>status = 200,
          body = JObj [(''time_steps'',
            JArr (map encode_step (map (plume_step K (80, 13) OilSpill 180 2) [0..<13])))]\<rparr>"
    by (rule cascade_simulate_12)
next
  assume "1 \<le> hours \<and> hours \<le> 24"
  then show "\<exists>steps. simulate_propagation K src st dir speed hours = Inr steps
                 \<and> length steps = nat hours + 1"
    by (simp add: simulate_propagation_valid)
next
  assume "simulate_propagation K src st dir speed hours = Inr steps"
  then have steps: "steps = map (plume_step K src st dir speed) [0..<Suc (nat hours)]"
    by (rule simulate_propagation_steps)
  show sorted: "sorted (map ts_area steps)"
    unfolding steps by (rule areas_sorted)
  show "\<forall>i j. i \<le> j \<and> j < length steps \<longrightarrow> ts_area (steps ! i) \<le> ts_area (steps ! j)"
    using sorted by (auto simp: sorted_iff_nth_mono)
qed

lemma sample_step_area:
  "ts_area (plume_step sample_constants src OilSpill dir speed h) = 18 * real h"
  by (simp add: step_area sample_constants_def)

lemma upt_7: "[0..<7] = [0, 1, 2, 3, 4, 5, 6]"
  by (simp add: upt_rec)

text \<open>
  C7, at a concrete run of 6 hours with the sample constants: the areas are 18 times the
  hour.
\<close>

theorem plume_steps_and_areas_witness:
  "(1::int) \<le> 6 \<and> (6::int) \<le> 24
   \<and> simulate_propagation sample_constants (80, 13) OilSpill 180 2 6
       = Inr (map (plume_step sample_constants (80, 13) OilSpill 180 2) [0..<7])
   \<and> map ts_area (map (plume_step sample_constants (80, 13) OilSpill 180 2) [0..<7])
       = [0, 18, 36, 54, 72, 90, 108]
   \<and> sorted (map ts_area (map (plume_step sample_constants (80, 13) OilSpill 180 2) [0..<7]))"
proof -
  have run: "simulate_propagation sample_constants (80, 13) OilSpill 180 2 6
       = Inr (map (plume_step sample_constants (80, 13) OilSpill 180 2) [0..<7])"
    by (simp add: simulate_propagation_def)
  have areas: "map ts_area (map (plume_step sample_constants (80, 13) OilSpill 180 2) [0..<7])
       = [0, 18, 36, 54, 72, 90, 108]"
    by (simp add: upt_7 sample_step_area)
  from plume_steps_and_areas
    [of sample_constants "(80, 13)" 6 OilSpill 180 2
        "map (plume_step sample_constants (80, 13) OilSpill 180 2) [0..<7]"] run
  have "sorted (map ts_area (map (plume_step sample_constants (80, 13) OilSpill 180 2) [0..<7]))"
    by blast
  with run areas show ?thesis by simp
qed

section \<open>The dispatch plan serves critical zones from zones that are not critical\<close>

lemma pick_origin_member: "pick_origin costs best zs \<in> set (best # zs)"
  by (induction zs arbitrary: best) auto

lemma candidates_not_critical:
  "z \<in> set (candidates costs zones) \<Longrightarrow> zone_status z \<noteq> TierCritical \<and> z \<in> set zones"
  by (simp add: candidates_def)

lemma route_for_cases:
  "route_for edges zones dest =
     (case candidates (shortest_costs edges (length zones) (z_id dest)) zones of
        [] \<Rightarrow> Unavailable dest
      | z # zs \<Rightarrow>
          Route (pick_origin (shortest_costs edges (length zones) (z_id dest)) z zs) dest
            (cost_of (shortest_costs edges (length zones) (z_id dest))
               (pick_origin (shortest_costs edges (length zones) (z_id dest)) z zs)))"
  unfolding route_for_def Let_def by (rule refl)

lemma route_for_sound:
  assumes "route_for edges zones dest = Route origin d c"
  shows "d = dest \<and> zone_status origin \<noteq> TierCritical \<and> origin \<in> set zones"
proof (cases "candidates (shortest_costs edges (length zones) (z_id dest)) zones")
  case Nil
  with assms show ?thesis by (simp add: route_for_cases)
next
  case (Cons z zs)
  with assms have o: "origin = pick_origin (shortest_costs edges (length zones) (z_id dest)) z zs"
    and d: "d = dest"
    by (auto simp: route_for_cases)
  have "origin \<in> set (z # zs)"
    unfolding o by (rule pick_origin_member)
  then have "origin \<in> set (candidates (shortest_costs edges (length zones) (z_id dest)) zones)"
    by (simp only: Cons)
  then show ?thesis
    using d candidates_not_critical by blast
qed

lemma route_for_unavailable:
  assumes "route_for edges zones dest = Unavailable d"
  shows "d = dest"
  using assms
  by (cases "candidates (shortest_costs edges (length zones) (z_id dest)) zones")
     (simp_all add: route_for_cases)

text \<open>
  C6. In every dispatch plan, the destination of every route is a critical zone of the
  input and its origin is a zone of the input that is not critical; an entry flagged as
  dispatch unavailable is for a critical zone too. When no zone is critical the plan is
  empty.
\<close>

theorem dispatch_plan_sound:
  "(\<forall>e\<in>set (dispatch_plan edges zones).
      case e of
        Route origin dest c \<Rightarrow>
          zone_status dest = TierCritical \<and> dest \<in> set zones
          \<and> zone_status origin \<noteq> TierCritical \<and> origin \<in> set zones
      | Unavailable dest \<Rightarrow> zone_status dest = TierCritical \<and> dest \<in> set zones)
   \<and> ((\<forall>z\<in>set zones. zone_status z \<noteq> TierCritical) \<longrightarrow> dispatch_plan edges zones = [])"
proof (intro conjI ballI impI)
  fix e
  assume "e \<in> set (dispatch_plan edges zones)"
  then obtain z where z: "z \<in> set zones" "zone_status z = TierCritical"
    and e: "e = route_for edges zones z"
    by (auto simp: dispatch_plan_def)
  show "case e of
        Route origin dest c \<Rightarrow>
          zone_status dest = TierCritical \<and> dest \<in> set zones
          \<and> zone_status origin \<noteq> TierCritical \<and> origin \<in> set zones
      | Unavailable dest \<Rightarrow> zone_status dest = TierCritical \<and> dest \<in> set zones"
  proof (cases e)
    case (Route origin dest c)
    then have "route_for edges zones z = Route origin dest c"
      using e by simp
    from route_for_sound [OF this] z show ?thesis
      by (simp add: Route)
  next
    case (Unavailable dest)
    then have "route_for edges zones z = Unavailable dest"
      using e by simp
    from route_for_unavailable [OF this] z show ?thesis
      by (simp add: Unavailable)
  qed
next
  assume "\<forall>z\<in>set zones. zone_status z \<noteq> TierCritical"
  then have "filter (\<lambda>z. zone_status z = TierCritical) zones = []"
    by (simp add: filter_empty_conv)
  then show "dispatch_plan edges zones = []"
    by (simp add: dispatch_plan_def)
qed

lemma sample_status:
  "zone_status zone_a = TierCritical" "zone_status zone_b = TierNormal"
  "zone_status zone_c = TierWarning"
  by (simp_all add: zone_status_def status_tier_def zone_a_def zone_b_def zone_c_def)

lemma sample_costs:
  "shortest_costs sample_edges 3 1 = [1 \<mapsto> 0, 3 \<mapsto> 4, 2 \<mapsto> 6]"
  by (simp add: shortest_costs_def relax_round_def relax_edge_def relax_def sample_edges_def
      eval_nat_numeral fun_upd_twist)


lemma sample_candidates:
  "candidates [1 \<mapsto> 0, 3 \<mapsto> 4, 2 \<mapsto> 6] [zone_a, zone_b, zone_c] = [zone_b, zone_c]"
  by (simp add: candidates_def sample_status) (simp add: zone_a_def zone_b_def zone_c_def)

lemma sample_plan:
  "dispatch_plan sample_edges [zone_a, zone_b, zone_c] = [Route zone_c zone_a 4]"
proof -
  have "route_for sample_edges [zone_a, zone_b, zone_c] zone_a = Route zone_c zone_a 4"
  proof -
    have "z_id zone_a = 1" by (simp add: zone_a_def)
    then have c: "shortest_costs sample_edges (length [zone_a, zone_b, zone_c]) (z_id zone_a)
            = [1 \<mapsto> 0, 3 \<mapsto> 4, 2 \<mapsto> 6]"
      using sample_costs by (simp add: eval_nat_numeral)
    show ?thesis
      unfolding route_for_cases c sample_candidates
      by (simp add: preferred_def cost_of_def zone_b_def zone_c_def)
  qed
  then show ?thesis
    by (simp add: dispatch_plan_def sample_status)
qed

text \<open>
  C6, at three zones: the plan for the one critical zone comes from the warning zone, the
  cheapest to reach; without the critical zone the plan is empty.
\<close>

theorem dispatch_plan_sound_witness:
  "dispatch_plan sample_edges [zone_a, zone_b, zone_c] = [Route zone_c zone_a 4]
   \<and> zone_status zone_a = TierCritical
   \<and> zone_status zone_c \<noteq> TierCritical
   \<and> zone_status zone_b \<noteq> TierCritical
   \<and> dispatch_plan sample_edges [zone_b, zone_c] = []"
proof -
  from dispatch_plan_sound [of sample_edges "[zone_a, zone_b, zone_c]"]
  have 1: "zone_status zone_a = TierCritical \<and> zone_status zone_c \<noteq> TierCritical"
    by (simp add: sample_plan)
  have 2: "\<forall>z\<in>set [zone_b, zone_c]. zone_status z \<noteq> TierCritical"
    by (simp add: sample_status)
  with dispatch_plan_sound [of sample_edges "[zone_b, zone_c]"]
  have 3: "dispatch_plan sample_edges [zone_b, zone_c] = []"
    by blast
  from 1 2 3 show ?thesis
    by (simp add: sample_plan)
qed

end
